theory Spec2Isabelle
  imports Complex_Main "HOL-Library.Product_Lexorder"
begin

section \<open>Numbers, dates and errors\<close>

text \<open>
  Python floats are modelled as exact reals: sums, quotients and comparisons are the
  mathematical ones, and binary rounding error is outside the model. A calendar date is
  its proleptic Gregorian ordinal (\<^verbatim>\<open>date.toordinal()\<close>), so that adding
  \<^verbatim>\<open>timedelta(days=1)\<close> is adding one and \<^verbatim>\<open>isoformat()\<close>, which is injective
  on dates, is replaced by the ordinal itself as dictionary key.
\<close>

type_synonym date = int

datatype py_error = OverflowError | ZeroDivisionError | ValidationError

text \<open>\<^verbatim>\<open>date.max.toordinal()\<close>, the ordinal of 9999-12-31; adding a day to it raises.\<close>

definition max_ordinal :: date where
  "max_ordinal = 3652059"

text \<open>\<^verbatim>\<open>date.weekday()\<close>: 0 is Monday, 6 is Sunday; ordinal 1 is a Monday.\<close>

definition weekday :: "date \<Rightarrow> int" where
  "weekday d = (d + 6) mod 7"

text \<open>
  \<^verbatim>\<open>round(x, n)\<close> on a float: the nearest multiple of \<open>10^-n\<close>, a tie going to the
  even one.
\<close>

definition py_round :: "real \<Rightarrow> nat \<Rightarrow> real" where
  "py_round x n =
     (let y = x * 10 ^ n; f = \<lfloor>y\<rfloor>; d = y - of_int f
      in (if d < 1 / 2 then of_int f
          else if 1 / 2 < d then of_int (f + 1)
          else if even f then of_int f
          else of_int (f + 1)) / 10 ^ n)"

section \<open>Data model (models/state.py)\<close>

text \<open>
  Every Pydantic model is a record. A field name that two models share is prefixed in the
  entity (\<open>r_\<close>, \<open>a_\<close>, \<open>c_\<close>, \<open>t_\<close>, \<open>p_\<close>, \<open>f_\<close>); the keys of the shared state
  keep the source's names.
\<close>

record project =
  p_id :: string
  p_name :: string
  p_start_date :: date
  p_end_date :: date
  priority :: nat
  status :: string

record resource =
  r_id :: string
  r_name :: string
  r_email :: string
  r_role :: string
  max_capacity_hours_per_day :: real
  r_department :: "string option"
  skill_tags :: "string list"

record assignment =
  a_id :: string
  a_project_id :: string
  a_resource_id :: string
  a_task_id :: string
  a_task_name :: string
  a_start_date :: date
  a_end_date :: date
  allocated_units :: real
  total_work_hours :: real
  is_on_critical_path :: bool
  slack_days :: int

record consolidated_resource =
  c_id :: string
  c_name :: string
  c_email :: string
  c_role :: string
  capacity :: real
  c_department :: "string option"
  skills :: "string list"
  c_assignments :: "assignment list"

record task_involvement =
  t_project_id :: string
  t_task_id :: string
  t_task_name :: string
  hours :: real

datatype severity = LOW | MEDIUM | HIGH | CRITICAL

record conflict =
  resource_id :: string
  resource_name :: string
  conflict_date :: date
  allocated_hours :: real
  capacity_hours :: real
  overallocation_hours :: real
  overallocation_percent :: real
  severity :: severity
  tasks_involved :: "task_involvement list"
  projects_count :: nat

record impact_analysis =
  affected_tasks :: "string list"
  days_impact :: int
  resources_needed :: int

datatype strategy =
  REDISTRIBUTE_WITH_SLACK | MOVE_NONCRITICAL | EXTEND_DURATION | ADD_RESOURCE

record solution =
  conflict_id :: string
  strategy :: strategy
  description :: string
  reasoning :: string
  feasibility_score :: real
  complexity_score :: real
  preserves_deadline :: bool
  impact_analysis :: impact_analysis

record weights =
  feasibility :: real
  impact :: real
  deadline :: real
  simplicity :: real

text \<open>\<^verbatim>\<open>class RankedSolution(Solution)\<close>: the solution's fields and two more.\<close>

record ranked_solution = solution +
  rank_score :: real
  rs_weights :: weights

datatype implementation_result = Success | Partial | Failed

record feedback =
  solution_id :: string
  accepted :: bool
  manager_rating :: int
  implementation_result :: implementation_result
  effectiveness_score :: real
  f_context :: "(string \<times> string) list"

text \<open>
  \<^verbatim>\<open>AgentState\<close> is a \<^verbatim>\<open>TypedDict\<close> with \<^verbatim>\<open>total=False\<close>. The keys that the agents
  read through \<^verbatim>\<open>state.get(key, default)\<close> hold that default where the dictionary has
  no such key; the three counters, which no agent reads, are optional. Of \<^verbatim>\<open>timestamps\<close>
  only the keys are kept: the values are wall-clock times.
\<close>

record agent_state =
  execution_id :: string
  stage :: string
  iterations :: int
  project_ids :: "string list"
  start_date :: date
  end_date :: date
  callback_url :: "string option"
  projects :: "project list"
  resources :: "resource list"
  assignments :: "assignment list"
  consolidated_resources :: "consolidated_resource list"
  conflicts :: "conflict list"
  total_conflicts :: "nat option"
  critical_conflicts :: "nat option"
  solutions :: "solution list"
  total_solutions :: "nat option"
  weights :: weights
  ranked_solutions :: "ranked_solution list"
  feedback_history :: "feedback list"
  patterns :: "(string \<times> string) list"
  should_continue :: bool
  trigger_pattern_analysis :: bool
  timestamps :: "string list"
  errors :: "string list"

text \<open>\<^verbatim>\<open>Weights()\<close>: the defaults of the model.\<close>

definition default_weights :: weights where
  "default_weights =
     \<lparr>feasibility = 0.30, impact = 0.25, deadline = 0.25, simplicity = 0.20\<rparr>"

definition create_initial_state ::
  "string \<Rightarrow> string list \<Rightarrow> date \<Rightarrow> date \<Rightarrow> string option \<Rightarrow> agent_state" where
  "create_initial_state eid pids sd ed cb =
     \<lparr>execution_id = eid, stage = ''initialization'', iterations = 0,
      project_ids = pids, start_date = sd, end_date = ed, callback_url = cb,
      projects = [], resources = [], assignments = [],
      consolidated_resources = [], conflicts = [],
      total_conflicts = None, critical_conflicts = None,
      solutions = [], total_solutions = None,
      weights = default_weights, ranked_solutions = [],
      feedback_history = [], patterns = [],
      should_continue = True, trigger_pattern_analysis = False,
      timestamps = [], errors = []\<rparr>"

text \<open>\<^verbatim>\<open>{**timestamps, key: datetime.now()}\<close>: a new key goes last, an old one stays.\<close>

definition stamp :: "string \<Rightarrow> string list \<Rightarrow> string list" where
  "stamp k ts = (if k \<in> set ts then ts else ts @ [k])"

section \<open>Consolidator (agents/consolidator.py)\<close>

text \<open>
  \<^verbatim>\<open>email.lower().strip()\<close> on ASCII text: the letters A to Z are lowered, and the
  blanks that \<^verbatim>\<open>strip\<close> removes at both ends are the codes 9 to 13 and 28 to 32.
\<close>

definition lower_char :: "char \<Rightarrow> char" where
  "lower_char c =
     (let n = (of_char c :: nat) in if 65 \<le> n \<and> n \<le> 90 then char_of (n + 32) else c)"

definition is_space :: "char \<Rightarrow> bool" where
  "is_space c = (let n = (of_char c :: nat) in (9 \<le> n \<and> n \<le> 13) \<or> (28 \<le> n \<and> n \<le> 32))"

definition strip :: "string \<Rightarrow> string" where
  "strip s = rev (dropWhile is_space (rev (dropWhile is_space s)))"

definition email_key :: "resource \<Rightarrow> string" where
  "email_key r = strip (map lower_char (r_email r))"

text \<open>
  \<^verbatim>\<open>resource_map\<close> is a dictionary, which keeps its keys in the order of their first
  insertion: an association list with distinct keys, a new key going last.
\<close>

type_synonym resource_map = "(string \<times> consolidated_resource) list"

definition new_consolidated :: "resource \<Rightarrow> string \<Rightarrow> consolidated_resource" where
  "new_consolidated r k =
     \<lparr>c_id = r_id r, c_name = r_name r, c_email = k, c_role = r_role r,
      capacity = max_capacity_hours_per_day r, c_department = r_department r,
      skills = skill_tags r, c_assignments = []\<rparr>"

text \<open>The first loop: one entry per normalised email, made from the first resource that has it.\<close>

fun unique_resources :: "resource list \<Rightarrow> resource_map \<Rightarrow> resource_map" where
  "unique_resources [] m = m"
| "unique_resources (r # rs) m =
     unique_resources rs
       (case map_of m (email_key r) of
          None \<Rightarrow> m @ [(email_key r, new_consolidated r (email_key r))]
        | Some c \<Rightarrow> m)"

text \<open>\<^verbatim>\<open>next((r for r in resources if r.id == rid), None)\<close>.\<close>

definition find_resource :: "resource list \<Rightarrow> string \<Rightarrow> resource option" where
  "find_resource rs rid = find (\<lambda>r. r_id r = rid) rs"

text \<open>\<^verbatim>\<open>resource_map[k].assignments.append(a)\<close>, guarded by \<^verbatim>\<open>k in resource_map\<close>.\<close>

fun append_assignment :: "string \<Rightarrow> assignment \<Rightarrow> resource_map \<Rightarrow> resource_map" where
  "append_assignment k a [] = []"
| "append_assignment k a ((k', c) # m) =
     (if k' = k then (k', c\<lparr>c_assignments := c_assignments c @ [a]\<rparr>) # m
      else (k', c) # append_assignment k a m)"

text \<open>
  The second loop, over the assignments. The accumulator pairs the dictionary with the
  messages given to \<^verbatim>\<open>logger.warning\<close> so far.
\<close>

fun aggregate_assignments ::
  "resource list \<Rightarrow> assignment list \<Rightarrow> resource_map \<times> string list
     \<Rightarrow> resource_map \<times> string list" where
  "aggregate_assignments rs [] acc = acc"
| "aggregate_assignments rs (a # as) (m, warnings) =
     aggregate_assignments rs as
       (case find_resource rs (a_resource_id a) of
          None \<Rightarrow>
            (m, warnings @ [''Assignment '' @ a_id a @ '' references unknown resource ''
                              @ a_resource_id a])
        | Some r \<Rightarrow> (append_assignment (email_key r) a m, warnings))"

definition consolidate ::
  "resource list \<Rightarrow> assignment list \<Rightarrow> resource_map \<times> string list" where
  "consolidate rs as = aggregate_assignments rs as (unique_resources rs [], [])"

definition consolidator_agent :: "agent_state \<Rightarrow> agent_state" where
  "consolidator_agent state =
     state\<lparr>consolidated_resources :=
             map snd (fst (consolidate (resources state) (assignments state))),
           stage := ''consolidation_complete'',
           timestamps := stamp ''consolidation_complete'' (timestamps state)\<rparr>"

definition consolidator_warnings :: "agent_state \<Rightarrow> string list" where
  "consolidator_warnings state = snd (consolidate (resources state) (assignments state))"

section \<open>Conflict detector (agents/detector.py)\<close>

text \<open>
  The loop of \<^verbatim>\<open>get_business_days\<close>. Its last statement adds a day to \<^verbatim>\<open>current\<close>,
  which raises \<^verbatim>\<open>OverflowError\<close> at \<^verbatim>\<open>date.max\<close>.
\<close>

function business_days_loop :: "date \<Rightarrow> date \<Rightarrow> nat \<Rightarrow> py_error + nat" where
  "business_days_loop current stop n =
     (if current \<le> stop then
        (if max_ordinal \<le> current then Inl OverflowError
         else business_days_loop (current + 1) stop
                (if weekday current < 5 then n + 1 else n))
      else Inr n)"
  by pat_completeness auto
termination
  by (relation "measure (\<lambda>(current, stop, n). nat (stop + 1 - current))") auto

definition get_business_days :: "date \<Rightarrow> date \<Rightarrow> py_error + nat" where
  "get_business_days start stop =
     (if stop < start then Inr 0 else business_days_loop start stop 0)"

definition classify_severity :: "real \<Rightarrow> severity" where
  "classify_severity percent =
     (if percent < 25 then LOW
      else if percent < 50 then MEDIUM
      else if percent < 100 then HIGH
      else CRITICAL)"

text \<open>
  One value of \<^verbatim>\<open>daily_allocation\<close>: the dictionary with the keys \<^verbatim>\<open>date\<close>,
  \<^verbatim>\<open>tasks\<close> and \<^verbatim>\<open>total_hours\<close>. The ledger itself is a dictionary keyed by the
  date, in insertion order.
\<close>

record day_entry =
  d_date :: date
  d_tasks :: "task_involvement list"
  d_total_hours :: real

type_synonym daily_allocation = "(date \<times> day_entry) list"

definition ensure_day :: "date \<Rightarrow> daily_allocation \<Rightarrow> daily_allocation" where
  "ensure_day d m =
     (case map_of m d of
        None \<Rightarrow> m @ [(d, \<lparr>d_date = d, d_tasks = [], d_total_hours = 0\<rparr>)]
      | Some day \<Rightarrow> m)"

fun update_day ::
  "date \<Rightarrow> (day_entry \<Rightarrow> day_entry) \<Rightarrow> daily_allocation \<Rightarrow> daily_allocation" where
  "update_day d f [] = []"
| "update_day d f ((k, day) # m) =
     (if k = d then (k, f day) # m else (k, day) # update_day d f m)"

definition add_task :: "date \<Rightarrow> task_involvement \<Rightarrow> daily_allocation \<Rightarrow> daily_allocation" where
  "add_task d t m =
     update_day d
       (\<lambda>day. day\<lparr>d_tasks := d_tasks day @ [t], d_total_hours := d_total_hours day + hours t\<rparr>)
       (ensure_day d m)"

definition task_of :: "assignment \<Rightarrow> real \<Rightarrow> task_involvement" where
  "task_of a hours_per_day =
     \<lparr>t_project_id = a_project_id a, t_task_id = a_task_id a,
      t_task_name = a_task_name a, hours = hours_per_day\<rparr>"

text \<open>The inner loop that spreads one assignment over the weekdays of its range.\<close>

function distribute ::
  "assignment \<Rightarrow> real \<Rightarrow> date \<Rightarrow> daily_allocation \<Rightarrow> py_error + daily_allocation" where
  "distribute a hours_per_day current m =
     (if current \<le> a_end_date a then
        (if max_ordinal \<le> current then Inl OverflowError
         else distribute a hours_per_day (current + 1)
                (if weekday current < 5 then add_task current (task_of a hours_per_day) m
                 else m))
      else Inr m)"
  by pat_completeness auto
termination
  by (relation "measure (\<lambda>(a, h, current, m). nat (a_end_date a + 1 - current))") auto

text \<open>
  The body of the loop over a resource's assignments. The accumulator pairs the ledger
  with the messages given to \<^verbatim>\<open>logger.warning\<close> so far.
\<close>

definition process_assignment ::
  "assignment \<Rightarrow> daily_allocation \<times> string list
     \<Rightarrow> py_error + daily_allocation \<times> string list" where
  "process_assignment a acc =
     (case get_business_days (a_start_date a) (a_end_date a) of
        Inl e \<Rightarrow> Inl e
      | Inr business_days \<Rightarrow>
          if business_days = 0 then
            Inr (fst acc, snd acc @ [''Assignment '' @ a_id a @ '' has no business days''])
          else
            (case distribute a (total_work_hours a / real business_days)
                    (a_start_date a) (fst acc) of
               Inl e \<Rightarrow> Inl e
             | Inr m \<Rightarrow> Inr (m, snd acc)))"

fun process_assignments ::
  "assignment list \<Rightarrow> daily_allocation \<times> string list
     \<Rightarrow> py_error + daily_allocation \<times> string list" where
  "process_assignments [] acc = Inr acc"
| "process_assignments (a # as) acc =
     (case process_assignment a acc of
        Inl e \<Rightarrow> Inl e
      | Inr acc' \<Rightarrow> process_assignments as acc')"

text \<open>
  The conflict built for a day over capacity. The quotient by the capacity raises
  \<^verbatim>\<open>ZeroDivisionError\<close> when the capacity is zero; \<open>detect_days\<close> checks that first.
\<close>

definition conflict_of :: "consolidated_resource \<Rightarrow> day_entry \<Rightarrow> conflict" where
  "conflict_of r day =
     (let over_hours = d_total_hours day - capacity r;
          over_percent = over_hours / capacity r * 100
      in \<lparr>resource_id = c_id r, resource_name = c_name r,
          conflict_date = d_date day,
          allocated_hours = py_round (d_total_hours day) 2,
          capacity_hours = capacity r,
          overallocation_hours = py_round over_hours 2,
          overallocation_percent = py_round over_percent 1,
          severity = classify_severity over_percent,
          tasks_involved = d_tasks day,
          projects_count = length (remdups (map t_project_id (d_tasks day)))\<rparr>)"

fun detect_days ::
  "consolidated_resource \<Rightarrow> daily_allocation \<Rightarrow> conflict list \<Rightarrow> py_error + conflict list" where
  "detect_days r [] cs = Inr cs"
| "detect_days r ((k, day) # m) cs =
     (if capacity r < d_total_hours day then
        (if capacity r = 0 then Inl ZeroDivisionError
         else detect_days r m (cs @ [conflict_of r day]))
      else detect_days r m cs)"

text \<open>The outer loop, over the consolidated resources; each starts an empty ledger.\<close>

fun detect_resources ::
  "consolidated_resource list \<Rightarrow> conflict list \<times> string list
     \<Rightarrow> py_error + conflict list \<times> string list" where
  "detect_resources [] acc = Inr acc"
| "detect_resources (r # rs) acc =
     (case process_assignments (c_assignments r) ([], snd acc) of
        Inl e \<Rightarrow> Inl e
      | Inr led \<Rightarrow>
          (case detect_days r (fst led) (fst acc) of
             Inl e \<Rightarrow> Inl e
           | Inr cs \<Rightarrow> detect_resources rs (cs, snd led)))"

definition severity_order :: "severity \<Rightarrow> int" where
  "severity_order s = (case s of CRITICAL \<Rightarrow> 4 | HIGH \<Rightarrow> 3 | MEDIUM \<Rightarrow> 2 | LOW \<Rightarrow> 1)"

text \<open>The key of \<^verbatim>\<open>conflicts.sort\<close>; tuples compare lexicographically.\<close>

definition conflict_key :: "conflict \<Rightarrow> int \<times> real" where
  "conflict_key c = (- severity_order (severity c), - overallocation_percent c)"

text \<open>\<^verbatim>\<open>list.sort\<close> is stable, as is \<open>sort_key\<close>.\<close>

definition detector_agent :: "agent_state \<Rightarrow> py_error + agent_state" where
  "detector_agent state =
     (case detect_resources (consolidated_resources state) ([], []) of
        Inl e \<Rightarrow> Inl e
      | Inr found \<Rightarrow>
          Inr (state\<lparr>conflicts := sort_key conflict_key (fst found),
                     total_conflicts := Some (length (fst found)),
                     critical_conflicts :=
                       Some (length (filter (\<lambda>c. severity c = CRITICAL) (fst found))),
                     stage := ''detection_complete'',
                     timestamps := stamp ''detection_complete'' (timestamps state)\<rparr>))"

definition detector_warnings :: "agent_state \<Rightarrow> py_error + string list" where
  "detector_warnings state =
     (case detect_resources (consolidated_resources state) ([], []) of
        Inl e \<Rightarrow> Inl e
      | Inr found \<Rightarrow> Inr (snd found))"

section \<open>Solution generator (agents/generator.py)\<close>

text \<open>
  The \<^verbatim>\<open>try\<close> block (the request to the language model, the parsing of its answer and
  the validation of each solution) is the parameter \<open>llm\<close>: given the conflicts that the
  prompt shows, it yields the solutions, or the text of the exception that the
  \<^verbatim>\<open>except Exception\<close> clause catches.
\<close>

definition generator_agent ::
  "(conflict list \<Rightarrow> string + solution list) \<Rightarrow> agent_state \<Rightarrow> agent_state" where
  "generator_agent llm state =
     (if conflicts state = [] then
        state\<lparr>solutions := [], total_solutions := Some 0,
              stage := ''generation_complete'',
              errors := errors state @ [''No conflicts to generate solutions'']\<rparr>
      else
        (case llm (take 10 (conflicts state)) of
           Inr sols \<Rightarrow>
             state\<lparr>solutions := sols, total_solutions := Some (length sols),
                   stage := ''generation_complete'',
                   timestamps := stamp ''generation_complete'' (timestamps state)\<rparr>
         | Inl msg \<Rightarrow>
             state\<lparr>solutions := [], total_solutions := Some 0,
                   stage := ''generation_failed'',
                   errors := errors state @ [''Generation failed: '' @ msg]\<rparr>))"

section \<open>Solution ranker (agents/ranker.py)\<close>

definition calculate_rank_score :: "solution \<Rightarrow> weights \<Rightarrow> real" where
  "calculate_rank_score s w =
     (let feasibility_part = feasibility_score s;
          impact_score = 1.0 - complexity_score s;
          deadline_score = (if preserves_deadline s then 1.0 else 0.3);
          simplicity_score = 1.0 - complexity_score s;
          score = feasibility_part * feasibility w + impact_score * impact w
                  + deadline_score * deadline w + simplicity_score * simplicity w
      in py_round score 3)"

text \<open>
  \<^verbatim>\<open>RankedSolution(**solution.dict(), rank_score=..., weights=...)\<close> validates its
  fields: the bounds that \<^verbatim>\<open>Solution\<close> declares, and \<^verbatim>\<open>rank_score\<close> within 0 and 1.
\<close>

definition ranked_solution_of :: "solution \<Rightarrow> weights \<Rightarrow> py_error + ranked_solution" where
  "ranked_solution_of s w =
     (let score = calculate_rank_score s w
      in if length (description s) \<le> 150
            \<and> 0 \<le> feasibility_score s \<and> feasibility_score s \<le> 1
            \<and> 0 \<le> complexity_score s \<and> complexity_score s \<le> 1
            \<and> 0 \<le> score \<and> score \<le> 1
         then Inr \<lparr>conflict_id = conflict_id s, strategy = strategy s,
                   description = description s, reasoning = reasoning s,
                   feasibility_score = feasibility_score s,
                   complexity_score = complexity_score s,
                   preserves_deadline = preserves_deadline s,
                   impact_analysis = impact_analysis s,
                   rank_score = score, rs_weights = w\<rparr>
         else Inl ValidationError)"

fun rank_solutions ::
  "solution list \<Rightarrow> weights \<Rightarrow> ranked_solution list \<Rightarrow> py_error + ranked_solution list" where
  "rank_solutions [] w acc = Inr acc"
| "rank_solutions (s # ss) w acc =
     (case ranked_solution_of s w of
        Inl e \<Rightarrow> Inl e
      | Inr r \<Rightarrow> rank_solutions ss w (acc @ [r]))"

text \<open>
  \<^verbatim>\<open>sort(key=..., reverse=True)\<close> keeps equal keys in their first order: the stable
  sort by the negated score.
\<close>

definition ranker_agent :: "agent_state \<Rightarrow> py_error + agent_state" where
  "ranker_agent state =
     (if solutions state = [] then
        Inr (state\<lparr>ranked_solutions := [], stage := ''ranking_complete''\<rparr>)
      else
        (case rank_solutions (solutions state) (weights state) [] of
           Inl e \<Rightarrow> Inl e
         | Inr ranked \<Rightarrow>
             Inr (state\<lparr>ranked_solutions := sort_key (\<lambda>r. - rank_score r) ranked,
                        stage := ''ranking_complete'',
                        timestamps := stamp ''ranking_complete'' (timestamps state)\<rparr>)))"

section \<open>Workflow graph (workflow.py)\<close>

definition should_generate_solutions :: "agent_state \<Rightarrow> string" where
  "should_generate_solutions state =
     (if 0 < length (conflicts state) then ''generate'' else ''end'')"

definition should_continue_iteration :: "agent_state \<Rightarrow> string" where
  "should_continue_iteration state =
     (if iterations state < 3 \<and> trigger_pattern_analysis state then ''detect'' else ''end'')"

datatype node =
  Consolidate | Detect | Generate | Rank | Feedback | Analyze_patterns | Adjust_weights | END

text \<open>
  What the graph calls from outside this development: the language model behind the
  generator, and the three agents of \<^verbatim>\<open>agents/learning.py\<close>, which the graph imports
  and whose code is not among the sources.
\<close>

record collaborators =
  llm :: "conflict list \<Rightarrow> string + solution list"
  feedback_agent :: "agent_state \<Rightarrow> agent_state"
  pattern_analyzer_agent :: "agent_state \<Rightarrow> agent_state"
  weight_adjuster_agent :: "agent_state \<Rightarrow> agent_state"

text \<open>\<^verbatim>\<open>add_node\<close>: the agent behind each node.\<close>

definition run_node :: "collaborators \<Rightarrow> node \<Rightarrow> agent_state \<Rightarrow> py_error + agent_state" where
  "run_node env n state =
     (case n of
        Consolidate \<Rightarrow> Inr (consolidator_agent state)
      | Detect \<Rightarrow> detector_agent state
      | Generate \<Rightarrow> Inr (generator_agent (llm env) state)
      | Rank \<Rightarrow> ranker_agent state
      | Feedback \<Rightarrow> Inr (feedback_agent env state)
      | Analyze_patterns \<Rightarrow> Inr (pattern_analyzer_agent env state)
      | Adjust_weights \<Rightarrow> Inr (weight_adjuster_agent env state)
      | END \<Rightarrow> Inr state)"

text \<open>\<^verbatim>\<open>add_edge\<close> and \<^verbatim>\<open>add_conditional_edges\<close>: the node that follows, given the state
  that the node just run has returned.\<close>

definition next_node :: "node \<Rightarrow> agent_state \<Rightarrow> node" where
  "next_node n state =
     (case n of
        Consolidate \<Rightarrow> Detect
      | Detect \<Rightarrow> (if should_generate_solutions state = ''generate'' then Generate else END)
      | Generate \<Rightarrow> Rank
      | Rank \<Rightarrow> END
      | Feedback \<Rightarrow> Analyze_patterns
      | Analyze_patterns \<Rightarrow> Adjust_weights
      | Adjust_weights \<Rightarrow>
          (if should_continue_iteration state = ''detect'' then Detect else END)
      | END \<Rightarrow> END)"

fun node_rank :: "node \<Rightarrow> nat" where
  "node_rank END = 0"
| "node_rank Rank = 1"
| "node_rank Generate = 2"
| "node_rank Detect = 3"
| "node_rank Consolidate = 4"
| "node_rank Adjust_weights = 4"
| "node_rank Analyze_patterns = 5"
| "node_rank Feedback = 6"

text \<open>
  Running the compiled graph from a node: each node's agent in turn, then the edge, until
  \<^verbatim>\<open>END\<close>. The result is the list of the nodes run and the final state, or the
  exception that an agent has raised.
\<close>

function invoke ::
  "collaborators \<Rightarrow> node \<Rightarrow> agent_state \<Rightarrow> py_error + node list \<times> agent_state" where
  "invoke env n state =
     (if n = END then Inr ([], state)
      else
        (case run_node env n state of
           Inl e \<Rightarrow> Inl e
         | Inr state' \<Rightarrow>
             (case invoke env (next_node n state') state' of
                Inl e \<Rightarrow> Inl e
              | Inr run \<Rightarrow> Inr (n # fst run, snd run))))"
  by pat_completeness auto
termination
proof (relation "measure (\<lambda>(env, n, state). node_rank n)")
  show "wf (measure (\<lambda>(env, n, state). node_rank n))"
    by simp
next
  fix env :: collaborators and n :: node and state state' :: agent_state
  assume "n \<noteq> END"
  then show "((env, next_node n state', state'), (env, n, state))
               \<in> measure (\<lambda>(env, n, state). node_rank n)"
    by (cases n) (simp_all add: next_node_def)
qed

text \<open>
  \<^verbatim>\<open>run_analysis\<close>: the initial state, the project data that the data source has
  returned, and the graph run from its entry point.
\<close>

definition run_analysis ::
  "collaborators \<Rightarrow> project list \<Rightarrow> resource list \<Rightarrow> assignment list \<Rightarrow>
     string \<Rightarrow> string list \<Rightarrow> date \<Rightarrow> date \<Rightarrow> string option \<Rightarrow>
     py_error + node list \<times> agent_state" where
  "run_analysis env ps rs as eid pids sd ed cb =
     invoke env Consolidate
       ((create_initial_state eid pids sd ed cb)
          \<lparr>projects := ps, resources := rs, assignments := as\<rparr>)"

section \<open>Feedback cycle\<close>

text \<open>
  Modelled from the spec: the three learning agents of \<^verbatim>\<open>agents/learning.py\<close> are not
  among the sources. By sections 4.4 and 9 of the specification the adjustment is a pure
  function of the feedback history and the current weights that yields the new weights
  and the decision to trigger another iteration; the feedback received joins the history
  first.
\<close>

definition learning_collaborators ::
  "(conflict list \<Rightarrow> string + solution list) \<Rightarrow>
   (feedback list \<Rightarrow> weights \<Rightarrow> weights \<times> bool) \<Rightarrow> feedback \<Rightarrow> collaborators" where
  "learning_collaborators model adjust fb =
     \<lparr>llm = model,
      feedback_agent = (\<lambda>state. state\<lparr>feedback_history := feedback_history state @ [fb]\<rparr>),
      pattern_analyzer_agent = (\<lambda>state. state),
      weight_adjuster_agent =
        (\<lambda>state. state\<lparr>weights := fst (adjust (feedback_history state) (weights state)),
                       trigger_pattern_analysis :=
                         snd (adjust (feedback_history state) (weights state))\<rparr>)\<rparr>"

text \<open>
  Modelled from the spec: no code among the sources changes \<^verbatim>\<open>iterations\<close>. By section
  4.5 each loop-back increments the iteration counter by one before re-entering
  \<^verbatim>\<open>detect\<close>.
\<close>

definition loop_back :: "agent_state \<Rightarrow> agent_state" where
  "loop_back state = state\<lparr>iterations := iterations state + 1\<rparr>"

text \<open>
  Modelled from the spec: one feedback cycle on the checkpointed state of an execution
  id. The three learning nodes run, the edge out of \<^verbatim>\<open>adjust_weights\<close> is the one of
  the graph, and a loop-back continues in the graph from \<^verbatim>\<open>detect\<close>. The result tells
  whether \<^verbatim>\<open>detect\<close> has been re-entered.
\<close>

definition feedback_cycle ::
  "collaborators \<Rightarrow> agent_state \<Rightarrow> bool \<times> (py_error + agent_state)" where
  "feedback_cycle env state =
     (let adjusted =
            weight_adjuster_agent env (pattern_analyzer_agent env (feedback_agent env state))
      in if next_node Adjust_weights adjusted = Detect then
           (True,
            case invoke env Detect (loop_back adjusted) of
              Inl e \<Rightarrow> Inl e
            | Inr run \<Rightarrow> Inr (snd run))
         else (False, Inr adjusted))"

text \<open>
  Modelled from the spec: the feedback cycles of one execution id, one per feedback
  received, each resuming from the state that the cycle before has left. A cycle that
  raises ends the run. The number returned counts the re-entries into \<^verbatim>\<open>detect\<close>.
\<close>

fun feedback_cycles ::
  "(conflict list \<Rightarrow> string + solution list) \<Rightarrow>
   (feedback list \<Rightarrow> weights \<Rightarrow> weights \<times> bool) \<Rightarrow>
   feedback list \<Rightarrow> agent_state \<Rightarrow> nat" where
  "feedback_cycles model adjust [] state = 0"
| "feedback_cycles model adjust (fb # fbs) state =
     (case feedback_cycle (learning_collaborators model adjust fb) state of
        (reentered, Inl e) \<Rightarrow> (if reentered then 1 else 0)
      | (reentered, Inr state') \<Rightarrow>
          (if reentered then 1 else 0) + feedback_cycles model adjust fbs state')"

section \<open>Vocabulary of the properties and inputs of the source's tests\<close>





section \<open>Properties\<close>

text \<open>
  Claim C2. The classifier returns LOW below 25, MEDIUM from 25 up to but excluding 50,
  HIGH from 50 up to but excluding 100, and CRITICAL from 100 on; the six boundary
  percentages 24.99, 25.0, 49.99, 50.0, 99.99 and 100.0 fall in LOW, MEDIUM, MEDIUM, HIGH,
  HIGH and CRITICAL.
\<close>

theorem classify_severity_tiers:
  "(p < 25 \<longrightarrow> classify_severity p = LOW) \<and>
   (25 \<le> p \<and> p < 50 \<longrightarrow> classify_severity p = MEDIUM) \<and>
   (50 \<le> p \<and> p < 100 \<longrightarrow> classify_severity p = HIGH) \<and>
   (100 \<le> p \<longrightarrow> classify_severity p = CRITICAL) \<and>
   classify_severity 24.99 = LOW \<and>
   classify_severity 25.0 = MEDIUM \<and>
   classify_severity 49.99 = MEDIUM \<and>
   classify_severity 50.0 = HIGH \<and>
   classify_severity 99.99 = HIGH \<and>
   classify_severity 100.0 = CRITICAL"
  by (simp add: classify_severity_def)

theorem classify_severity_tiers_witness:
  "classify_severity 10 = LOW \<and> classify_severity 30 = MEDIUM \<and>
   classify_severity 75 = HIGH \<and> classify_severity 250 = CRITICAL"
  using classify_severity_tiers [of 10] classify_severity_tiers [of 30]
    classify_severity_tiers [of 75] classify_severity_tiers [of 250]
  by simp

subsection \<open>Consolidation\<close>





















end
